theory Spec2Isabelle
  imports Main
begin

section \<open>Values of the host language\<close>

text \<open>
  The executor handles values of type \<^verbatim>\<open>unknown\<close>: request bodies, decoded response
  bodies, validated data, thrown values and whatever a recovery hook resolves with. They
  are modelled as trees: JSON data, \<^verbatim>\<open>undefined\<close>, BigInt values and functions. A number
  is given by its canonical text, the one that the conversion of a number to a string
  yields (\<^verbatim>\<open>42\<close>, \<^verbatim>\<open>0.5\<close>, \<^verbatim>\<open>1e+21\<close>, \<^verbatim>\<open>NaN\<close>, \<^verbatim>\<open>Infinity\<close>); a function is
  given by its source text; an object is the list of its own enumerable properties in
  the order in which the object enumerates them (integer-like keys first, in ascending
  order, then the other keys in the order of their creation). Object graphs with cycles
  and objects with conversion methods of their own are outside this model.
\<close>

datatype jsval =
    JUndefined
  | JNull
  | JBool bool
  | JNum string
  | JBigInt int
  | JStr string
  | JFunction string
  | JArr "jsval list"
  | JObj "(string \<times> jsval) list"

text \<open>Decimal rendering of a BigInt.\<close>

fun digits :: "nat \<Rightarrow> string" where
  "digits n =
     (if n < 10 then [char_of (48 + n)]
      else digits (n div 10) @ [char_of (48 + n mod 10)])"

declare digits.simps [simp del]

definition show_int :: "int \<Rightarrow> string" where
  "show_int i = (if i < 0 then CHR ''-'' # digits (nat (- i)) else digits (nat i))"

fun join_comma :: "string list \<Rightarrow> string" where
  "join_comma [] = []"
| "join_comma [s] = s"
| "join_comma (s # t # ss) = s @ CHR '','' # join_comma (t # ss)"

text \<open>
  \<^verbatim>\<open>String(v)\<close>, which \<^verbatim>\<open>execute\<close> applies to a thrown value that is not an
  \<^verbatim>\<open>Error\<close>: arrays join their elements with commas (\<^verbatim>\<open>null\<close> and \<^verbatim>\<open>undefined\<close>
  elements render as the empty string), plain objects render as \<^verbatim>\<open>[object Object]\<close>.
\<close>

fun String :: "jsval \<Rightarrow> string" where
  "String JUndefined = ''undefined''"
| "String JNull = ''null''"
| "String (JBool b) = (if b then ''true'' else ''false'')"
| "String (JNum t) = t"
| "String (JBigInt n) = show_int n"
| "String (JStr s) = s"
| "String (JFunction src) = src"
| "String (JArr xs) =
     join_comma (map (\<lambda>x. if x = JUndefined \<or> x = JNull then [] else String x) xs)"
| "String (JObj kvs) = ''[object Object]''"

text \<open>
  \<^verbatim>\<open>JSON.stringify\<close>. A string is quoted, with the quotation mark, the backslash and
  the control characters escaped.
\<close>

definition hex_digit :: "nat \<Rightarrow> char" where
  "hex_digit n = (if n < 10 then char_of (48 + n) else char_of (87 + n))"

definition escape_char :: "char \<Rightarrow> string" where
  "escape_char c =
     (if c = CHR 0x22 then [CHR 0x5C, CHR 0x22]
      else if c = CHR 0x5C then [CHR 0x5C, CHR 0x5C]
      else if c = CHR 0x08 then [CHR 0x5C, CHR ''b'']
      else if c = CHR 0x09 then [CHR 0x5C, CHR ''t'']
      else if c = CHR 0x0A then [CHR 0x5C, CHR ''n'']
      else if c = CHR 0x0C then [CHR 0x5C, CHR ''f'']
      else if c = CHR 0x0D then [CHR 0x5C, CHR ''r'']
      else if (of_char c :: nat) < 32
        then [CHR 0x5C, CHR ''u'', CHR ''0'', CHR ''0'',
              hex_digit (of_char c div 16), hex_digit (of_char c mod 16)]
      else [c])"

definition quote :: "string \<Rightarrow> string" where
  "quote s = CHR 0x22 # concat (map escape_char s) @ [CHR 0x22]"

text \<open>
  A value that \<^verbatim>\<open>JSON.stringify\<close> leaves out: \<^verbatim>\<open>undefined\<close> or a function. A number
  that is not finite is written \<^verbatim>\<open>null\<close>.
\<close>

definition left_out :: "jsval \<Rightarrow> bool" where
  "left_out v = (case v of JUndefined \<Rightarrow> True | JFunction src \<Rightarrow> True | _ \<Rightarrow> False)"

definition finite_text :: "string \<Rightarrow> bool" where
  "finite_text t \<longleftrightarrow> t \<noteq> ''NaN'' \<and> t \<noteq> ''Infinity'' \<and> t \<noteq> ''-Infinity''"

text \<open>
  The serialization of a value in element or property position. A left-out array
  element is written \<^verbatim>\<open>null\<close>; a property whose value is left out is not written.
  A BigInt has no serialization (\<open>JSON_stringify\<close> below throws before it is asked for).
\<close>

function serialize :: "jsval \<Rightarrow> string" where
  "serialize JUndefined = ''null''"
| "serialize JNull = ''null''"
| "serialize (JBool b) = (if b then ''true'' else ''false'')"
| "serialize (JNum t) = (if finite_text t then t else ''null'')"
| "serialize (JBigInt n) = []"
| "serialize (JStr s) = quote s"
| "serialize (JFunction src) = ''null''"
| "serialize (JArr xs) = CHR ''['' # join_comma (map serialize xs) @ '']''"
| "serialize (JObj kvs) =
     CHR ''{'' #
       join_comma (map (\<lambda>kv. quote (fst kv) @ CHR '':'' # serialize (snd kv))
                       (filter (\<lambda>kv. \<not> left_out (snd kv)) kvs)) @ ''}''"
  by pat_completeness auto

termination serialize
proof (relation "measure size")
  show "wf (measure (size :: jsval \<Rightarrow> nat))" by simp
next
  fix xs :: "jsval list" and x
  assume "x \<in> set xs"
  then have "size x < size (JArr xs)"
    by (induction xs) auto
  then show "(x, JArr xs) \<in> measure size" by simp
next
  fix kvs :: "(string \<times> jsval) list" and kv
  assume "kv \<in> set (filter (\<lambda>kv. \<not> left_out (snd kv)) kvs)"
  then have "kv \<in> set kvs" by simp
  then have "size (snd kv) < size (JObj kvs)"
  proof (induction kvs)
    case Nil
    then show ?case by simp
  next
    case (Cons a kvs)
    then show ?case
      by (cases a; cases kv) (auto simp: less_Suc_eq_le)
  qed
  then show "(snd kv, JObj kvs) \<in> measure size" by simp
qed

text \<open>A BigInt occurs in what \<^verbatim>\<open>JSON.stringify\<close> visits of a value.\<close>

function has_bigint :: "jsval \<Rightarrow> bool" where
  "has_bigint JUndefined = False"
| "has_bigint JNull = False"
| "has_bigint (JBool b) = False"
| "has_bigint (JNum t) = False"
| "has_bigint (JBigInt n) = True"
| "has_bigint (JStr s) = False"
| "has_bigint (JFunction src) = False"
| "has_bigint (JArr xs) = list_ex has_bigint xs"
| "has_bigint (JObj kvs) = list_ex (\<lambda>kv. has_bigint (snd kv)) kvs"
  by pat_completeness auto

termination has_bigint
proof (relation "measure size")
  show "wf (measure (size :: jsval \<Rightarrow> nat))" by simp
next
  fix xs :: "jsval list" and x
  assume "x \<in> set xs"
  then have "size x < size (JArr xs)"
    by (induction xs) auto
  then show "(x, JArr xs) \<in> measure size" by simp
next
  fix kvs :: "(string \<times> jsval) list" and kv
  assume "kv \<in> set kvs"
  then have "size (snd kv) < size (JObj kvs)"
  proof (induction kvs)
    case Nil
    then show ?case by simp
  next
    case (Cons a kvs)
    then show ?case
      by (cases a; cases kv) (auto simp: less_Suc_eq_le)
  qed
  then show "(snd kv, JObj kvs) \<in> measure size" by simp
qed

section \<open>Errors, thrown values and schemas\<close>

type_synonym header_map = "string \<rightharpoonup> string"

datatype fetch_error =
    NetworkError string
  | HttpError int string string jsval
  | ParseError string "string list"

text \<open>The fields \<^verbatim>\<open>type\<close> and \<^verbatim>\<open>message\<close>, which every variant has.\<close>

fun fe_type :: "fetch_error \<Rightarrow> string" where
  "fe_type (NetworkError m) = ''network''"
| "fe_type (HttpError st stt m dt) = ''http''"
| "fe_type (ParseError m is) = ''parse''"

fun fe_message :: "fetch_error \<Rightarrow> string" where
  "fe_message (NetworkError m) = m"
| "fe_message (HttpError st stt m dt) = m"
| "fe_message (ParseError m is) = m"

text \<open>An \<^verbatim>\<open>Error\<close> object; \<^verbatim>\<open>fetchError\<close> is present on the ones \<^verbatim>\<open>toError\<close> builds.\<close>

record js_error =
  err_name :: string
  err_message :: string
  err_fetchError :: "fetch_error option"

text \<open>Anything that can be thrown: an \<^verbatim>\<open>Error\<close>, or some other value.\<close>

datatype thrown = ThrownError js_error | ThrownValue jsval

text \<open>
  \<^verbatim>\<open>JSON.stringify(v)\<close>: it throws a \<^verbatim>\<open>TypeError\<close> when it meets a BigInt, it
  yields \<^verbatim>\<open>undefined\<close> for a value that is left out, and the text otherwise.
\<close>

definition bigint_error :: thrown where
  "bigint_error =
     ThrownError \<lparr>err_name = ''TypeError'',
                  err_message = ''Do not know how to serialize a BigInt'',
                  err_fetchError = None\<rparr>"

definition JSON_stringify :: "jsval \<Rightarrow> thrown + string option" where
  "JSON_stringify v =
     (if has_bigint v then Inl bigint_error
      else if left_out v then Inr None
      else Inr (Some (serialize v)))"

text \<open>
  A Standard Schema is its \<^verbatim>\<open>validate\<close> function. Called on a value it returns (or
  resolves with) a result, which is either a value or a list of issues, each carrying a
  message; or it throws (or rejects), which is \<open>Inl\<close>. A message extractor returns a
  string or throws.
\<close>

datatype issue = Issue (issue_message: string)

datatype standard_result = Value jsval | Issues "issue list"

type_synonym standard_schema = "jsval \<Rightarrow> thrown + standard_result"

type_synonym extractor = "jsval \<Rightarrow> thrown + string"

section \<open>The helpers\<close>

text \<open>
  \<^verbatim>\<open>Object.assign({ Accept: 'application/json' }, ...layers)\<close>: the layers are copied
  onto the base from left to right, and an \<^verbatim>\<open>undefined\<close> layer contributes nothing.
  Each own property of a layer is assigned to the target, not defined on it, so that a
  property named \<^verbatim>\<open>__proto__\<close> goes to the setter that the target inherits, which
  ignores a string: such a property is not copied.
\<close>

definition assignable :: "header_map \<Rightarrow> header_map" where
  "assignable m = (\<lambda>k. if k = ''__proto__'' then None else m k)"

definition assign :: "header_map \<Rightarrow> header_map option \<Rightarrow> header_map" where
  "assign target layer =
     (case layer of None \<Rightarrow> target | Some m \<Rightarrow> target ++ assignable m)"

definition resolveHeaders :: "header_map option list \<Rightarrow> header_map" where
  "resolveHeaders layers = foldl assign [''Accept'' \<mapsto> ''application/json''] layers"

definition toError :: "fetch_error \<Rightarrow> js_error" where
  "toError fe =
     \<lparr>err_name = ''FetchError.'' @ fe_type fe,
      err_message = fe_message fe,
      err_fetchError = Some fe\<rparr>"

definition isQueryMethod :: "string \<Rightarrow> bool" where
  "isQueryMethod m \<longleftrightarrow> m = ''GET'' \<or> m = ''HEAD'' \<or> m = ''OPTIONS''"

text \<open>
  \<^verbatim>\<open>hasErrorString\<close>: \<^verbatim>\<open>typeof data\<close> is \<^verbatim>\<open>'object'\<close> for objects, arrays and
  \<^verbatim>\<open>null\<close>; an array of JSON data has no property named \<^verbatim>\<open>error\<close>.
\<close>

definition typeof_object :: "jsval \<Rightarrow> bool" where
  "typeof_object v = (case v of JNull \<Rightarrow> True | JArr xs \<Rightarrow> True | JObj kvs \<Rightarrow> True | _ \<Rightarrow> False)"

definition has_property :: "string \<Rightarrow> jsval \<Rightarrow> bool" where
  "has_property k v = (case v of JObj kvs \<Rightarrow> k \<in> fst ` set kvs | _ \<Rightarrow> False)"

definition get_property :: "string \<Rightarrow> jsval \<Rightarrow> jsval" where
  "get_property k v =
     (case v of
        JObj kvs \<Rightarrow> (case map_of kvs k of None \<Rightarrow> JUndefined | Some x \<Rightarrow> x)
      | _ \<Rightarrow> JUndefined)"

definition typeof_string :: "jsval \<Rightarrow> bool" where
  "typeof_string v = (case v of JStr s \<Rightarrow> True | _ \<Rightarrow> False)"

definition hasErrorString :: "jsval \<Rightarrow> bool" where
  "hasErrorString data =
     (if \<not> typeof_object data \<or> data = JNull then False
      else if \<not> has_property ''error'' data then False
      else typeof_string (get_property ''error'' data))"

text \<open>
  The result of \<^verbatim>\<open>decodeErrorBody\<close>: a message, and data when the schema matched. The
  function awaits \<^verbatim>\<open>validate\<close> and calls the extractor without guarding either, so
  that what they throw is what it rejects with.
\<close>

record decoded =
  dec_message :: string
  dec_data :: "jsval option"

definition str_of :: "jsval \<Rightarrow> string" where
  "str_of v = (case v of JStr s \<Rightarrow> s | _ \<Rightarrow> [])"

definition decodeErrorBody ::
  "jsval \<Rightarrow> string \<Rightarrow> standard_schema option \<Rightarrow> extractor option \<Rightarrow> thrown + decoded" where
  "decodeErrorBody data fallback errorSchema errorMessage =
     (case errorSchema of
        None \<Rightarrow>
          if hasErrorString data
          then Inr \<lparr>dec_message = str_of (get_property ''error'' data), dec_data = None\<rparr>
          else Inr \<lparr>dec_message = fallback, dec_data = None\<rparr>
      | Some validate \<Rightarrow>
          (case validate data of
             Inl t \<Rightarrow> Inl t
           | Inr (Issues is) \<Rightarrow> Inr \<lparr>dec_message = fallback, dec_data = None\<rparr>
           | Inr (Value v) \<Rightarrow>
               (case errorMessage of
                  None \<Rightarrow> Inr \<lparr>dec_message = fallback, dec_data = Some v\<rparr>
                | Some f \<Rightarrow>
                    (case f v of
                       Inl t \<Rightarrow> Inl t
                     | Inr m \<Rightarrow> Inr \<lparr>dec_message = m, dec_data = Some v\<rparr>))))"

section \<open>The request executor\<close>

datatype op_kind = Query | Mutate

text \<open>
  The second argument of the transport function, the \<^verbatim>\<open>Response\<close> it resolves with (the
  field \<open>r_json\<close> is what the body-parse operation resolves with, \<open>None\<close> when it rejects),
  the observability event and the options of a retry.
\<close>

record request_init =
  ri_method :: string
  ri_headers :: header_map
  ri_body :: "string option"
  ri_credentials :: "string option"
  ri_cache :: "string option"

record response =
  r_ok :: bool
  r_status :: int
  r_statusText :: string
  r_json :: "jsval option"

record span_event =
  ev_name :: string
  ev_op :: op_kind
  ev_url :: string
  ev_method :: string
  ev_status :: "int option"
  ev_durationMs :: int
  ev_ok :: bool
  ev_error :: "fetch_error option"

record request_options =
  ro_headers :: "header_map option"

text \<open>A settled promise: rejected with a thrown value, or resolved with a value.\<close>

type_synonym settled = "thrown + jsval"

text \<open>
  A recovery hook is a function of the error and of the retry function. What it does
  with the retry function is a strategy: it returns nothing, returns a promise (or a
  value) that settles in some way, throws, or calls the retry function with some options
  and goes on according to how that call settles. A hook may call the retry function any
  number of times; it is taken to wait for each call before it goes on.
\<close>

datatype hook_run =
    ReturnsNothing
  | Returns settled
  | Throws thrown
  | CallsRetry "request_options option" "settled \<Rightarrow> hook_run"

type_synonym catch_handler = "fetch_error \<Rightarrow> hook_run"

text \<open>What the executor does to its collaborators, in order.\<close>

datatype event =
    EvFetch string request_init
  | EvJson
  | EvSpan span_event
  | EvCatch fetch_error
  | EvRetry "request_options option"

text \<open>
  The collaborators act on a world \<open>'w\<close>: the transport function reads and changes it,
  the observability sink changes it. \<^verbatim>\<open>ComposableFetcherDependencies\<close> and
  \<^verbatim>\<open>ExecuteParams\<close> (its field \<^verbatim>\<open>method\<close> is \<open>http_method\<close> here):
\<close>

record 'w deps =
  d_fetch :: "string \<Rightarrow> request_init \<Rightarrow> 'w \<Rightarrow> (thrown + response) \<times> 'w"
  d_onSpan :: "(span_event \<Rightarrow> 'w \<Rightarrow> 'w) option"
  d_catch :: "catch_handler option"
  d_errorMessage :: "extractor option"
  d_errorSchema :: "standard_schema option"

record 'w params =
  url :: string
  http_method :: string
  op :: op_kind
  name :: string
  fallback :: string
  headers :: header_map
  body :: jsval
  schema :: "standard_schema option"
  credentials :: "string option"
  cache :: "string option"
  errorSchema :: "standard_schema option"
  errorMessage :: "extractor option"
  onSpan :: "(span_event \<Rightarrow> 'w \<Rightarrow> 'w) option"
  catch :: "catch_handler option"
  isRetry :: "bool option"

text \<open>\<^verbatim>\<open>a ?? b\<close> on optional values, and the default of \<^verbatim>\<open>isRetry = false\<close>.\<close>

definition coalesce :: "'a option \<Rightarrow> 'a option \<Rightarrow> 'a option" where
  "coalesce a b = (case a of Some x \<Rightarrow> Some x | None \<Rightarrow> b)"

definition is_retry :: "'w params \<Rightarrow> bool" where
  "is_retry params = (case isRetry params of None \<Rightarrow> False | Some b \<Rightarrow> b)"

text \<open>The result of a call: how the promise settles, what was done, the world after.\<close>

type_synonym 'w run = "settled \<times> event list \<times> 'w"

definition emit :: "event list \<Rightarrow> 'w run \<Rightarrow> 'w run" where
  "emit evs r = (case r of (out, evs', w) \<Rightarrow> (out, evs @ evs', w))"

text \<open>
  The inner function \<^verbatim>\<open>span\<close>. The timer \<open>now\<close> reads the world in whole milliseconds,
  so that the rounding of the duration is the identity.
\<close>

definition span ::
  "('w \<Rightarrow> int) \<Rightarrow> 'w deps \<Rightarrow> 'w params \<Rightarrow> int \<Rightarrow> int option \<Rightarrow> bool \<Rightarrow> fetch_error option \<Rightarrow>
     'w \<Rightarrow> event list \<times> 'w" where
  "span now d params start st ok_flag err w =
     (case coalesce (onSpan params) (d_onSpan d) of
        None \<Rightarrow> ([], w)
      | Some sink \<Rightarrow>
          (let ev = \<lparr>ev_name = name params, ev_op = op params, ev_url = url params,
                     ev_method = http_method params, ev_status = st,
                     ev_durationMs = now w - start, ev_ok = ok_flag, ev_error = err\<rparr>
           in ([EvSpan ev], sink ev w)))"

text \<open>
  \<open>execute\<close>, its inner function \<open>handleError\<close>, and \<open>run_hook\<close>, which follows the
  strategy of the hook that \<open>handleError\<close> has called with the error and the retry
  function: its last equation is a call of \<^verbatim>\<open>retryFn\<close>. A rejected promise and a
  \<^verbatim>\<open>throw\<close> are the result \<open>Inl\<close>. The trace records the transport call, the
  body-parse operation of the response, the call of the sink, the call of the hook and
  the calls of the retry function where \<open>execute\<close> makes them.

  The \<^verbatim>\<open>try\<close> block holds the serialization of the body and the transport call, in
  this order: \<open>tried\<close> is what the block yields, and when the serialization throws the
  transport function is not called. Nothing guards the calls of \<^verbatim>\<open>validate\<close> and
  \<^verbatim>\<open>decodeErrorBody\<close>: when they reject, so does \<open>execute\<close>, at once.
\<close>

function execute :: "('w \<Rightarrow> int) \<Rightarrow> 'w deps \<Rightarrow> 'w params \<Rightarrow> 'w \<Rightarrow> 'w run"
  and handleError :: "('w \<Rightarrow> int) \<Rightarrow> 'w deps \<Rightarrow> 'w params \<Rightarrow> fetch_error \<Rightarrow> 'w \<Rightarrow> 'w run"
  and run_hook :: "('w \<Rightarrow> int) \<Rightarrow> 'w deps \<Rightarrow> 'w params \<Rightarrow> hook_run \<Rightarrow> 'w \<Rightarrow> 'w run"
where
  "execute now d params w =
     (let start = now w;
          tried =
            (case (if body params \<noteq> JUndefined then JSON_stringify (body params)
                   else Inr None) of
               Inl t \<Rightarrow> (Inl t, [], w)
             | Inr btxt \<Rightarrow>
                 (let init = \<lparr>ri_method = http_method params, ri_headers = headers params,
                              ri_body = btxt, ri_credentials = credentials params,
                              ri_cache = cache params\<rparr>;
                      fetched = d_fetch d (url params) init w
                  in (fst fetched, [EvFetch (url params) init], snd fetched)));
          w1 = snd (snd tried)
      in emit (fst (snd tried))
        (case fst tried of
           Inl caught \<Rightarrow>
             (let detail = (case caught of ThrownError e \<Rightarrow> err_message e
                                        | ThrownValue v \<Rightarrow> String v);
                  error = NetworkError (''Network error: '' @ detail);
                  sp = span now d params start None False (Some error) w1
              in emit (fst sp) (handleError now d params error (snd sp)))
         | Inr response \<Rightarrow>
             if \<not> r_ok response then
               (let rawData = (case r_json response of None \<Rightarrow> JUndefined | Some v \<Rightarrow> v)
                in case decodeErrorBody rawData (fallback params)
                          (coalesce (errorSchema params) (d_errorSchema d))
                          (coalesce (errorMessage params) (d_errorMessage d)) of
                     Inl t \<Rightarrow> (Inl t, [EvJson], w1)
                   | Inr decoded \<Rightarrow>
                       (let error = HttpError (r_status response) (r_statusText response)
                                      (dec_message decoded)
                                      (case dec_data decoded of None \<Rightarrow> JUndefined
                                                              | Some v \<Rightarrow> v);
                            sp = span now d params start (Some (r_status response)) False
                                   (Some error) w1
                        in emit (EvJson # fst sp)
                             (handleError now d params error (snd sp))))
             else
               (case schema params of
                  None \<Rightarrow>
                    (let sp = span now d params start (Some (r_status response)) True None w1
                     in (Inr JUndefined, fst sp, snd sp))
                | Some validate \<Rightarrow>
                    (let data = (case r_json response of None \<Rightarrow> JUndefined | Some v \<Rightarrow> v)
                     in case validate data of
                          Inl t \<Rightarrow> (Inl t, [EvJson], w1)
                        | Inr (Issues is) \<Rightarrow>
                            (let error = ParseError ''Unexpected response format''
                                           (map issue_message is);
                                 sp = span now d params start (Some (r_status response))
                                        False (Some error) w1
                             in emit (EvJson # fst sp)
                                  (handleError now d params error (snd sp)))
                        | Inr (Value v) \<Rightarrow>
                            (let sp = span now d params start (Some (r_status response))
                                        True None w1
                             in (Inr v, EvJson # fst sp, snd sp))))))"
| "handleError now d params error w =
     (case coalesce (catch params) (d_catch d) of
        None \<Rightarrow> (Inl (ThrownError (toError error)), [], w)
      | Some catchHandler \<Rightarrow>
          if is_retry params then (Inl (ThrownError (toError error)), [], w)
          else emit [EvCatch error] (run_hook now d params (catchHandler error) w))"
| "run_hook now d params ReturnsNothing w = (Inr JUndefined, [], w)"
| "run_hook now d params (Returns result) w = (result, [], w)"
| "run_hook now d params (Throws t) w = (Inl t, [], w)"
| "run_hook now d params (CallsRetry retryOptions k) w =
     (let retried = execute now d
            (params\<lparr>headers :=
                      resolveHeaders [Some (headers params),
                        (case retryOptions of None \<Rightarrow> None | Some ro \<Rightarrow> ro_headers ro)],
                    isRetry := Some True\<rparr>) w
      in emit (EvRetry retryOptions # fst (snd retried))
           (run_hook now d params (k (fst retried)) (snd (snd retried))))"
  by pat_completeness auto

text \<open>
  Termination: a retried call never reaches the hook again, and a hook strategy is
  followed downwards, one answer of the retry function at a time.
\<close>

definition hook_sub :: "(hook_run \<times> hook_run) set" where
  "hook_sub = {(h', h). \<exists>ro k r. h = CallsRetry ro k \<and> h' = k r}"

fun call_rank ::
  "(('w \<Rightarrow> int) \<times> 'w deps \<times> 'w params \<times> 'w) +
   (('w \<Rightarrow> int) \<times> 'w deps \<times> 'w params \<times> fetch_error \<times> 'w) +
   (('w \<Rightarrow> int) \<times> 'w deps \<times> 'w params \<times> hook_run \<times> 'w) \<Rightarrow> nat \<times> hook_run" where
  "call_rank (Inl (now, d, params, w)) = (if is_retry params then 1 else 4, ReturnsNothing)"
| "call_rank (Inr (Inl (now, d, params, error, w))) =
     (if is_retry params then 0 else 3, ReturnsNothing)"
| "call_rank (Inr (Inr (now, d, params, h, w))) = (2, h)"

termination execute
proof (relation "inv_image (less_than <*lex*> hook_sub) call_rank")
  have "wf hook_sub"
  proof (rule wfUNIVI)
    fix P :: "hook_run \<Rightarrow> bool" and x
    assume step: "\<forall>x. (\<forall>y. (y, x) \<in> hook_sub \<longrightarrow> P y) \<longrightarrow> P x"
    show "P x"
    proof (induction x)
      case ReturnsNothing
      show ?case using step by (auto simp: hook_sub_def)
    next
      case (Returns s)
      show ?case using step by (auto simp: hook_sub_def)
    next
      case (Throws t)
      show ?case using step by (auto simp: hook_sub_def)
    next
      case (CallsRetry ro k)
      have "\<forall>y. (y, CallsRetry ro k) \<in> hook_sub \<longrightarrow> P y"
        using CallsRetry by (auto simp: hook_sub_def)
      with step show ?case by blast
    qed
  qed
  then show "wf (inv_image (less_than <*lex*> hook_sub) call_rank)"
    by (intro wf_inv_image wf_lex_prod wf_less_than)
qed (auto simp: is_retry_def hook_sub_def)

declare execute.simps [simp del] handleError.simps [simp del]

section \<open>The attempt and the trace\<close>

text \<open>
  The outcome of serializing the body, the \<^verbatim>\<open>RequestInit\<close> that \<open>execute\<close> hands to
  the transport function, what the \<^verbatim>\<open>try\<close> block yields and the world after it.
\<close>

definition body_text :: "'w params \<Rightarrow> thrown + string option" where
  "body_text params =
     (if body params \<noteq> JUndefined then JSON_stringify (body params) else Inr None)"

definition init_of :: "'w params \<Rightarrow> string option \<Rightarrow> request_init" where
  "init_of params btxt =
     \<lparr>ri_method = http_method params, ri_headers = headers params, ri_body = btxt,
      ri_credentials = credentials params, ri_cache = cache params\<rparr>"

definition transport_result :: "'w deps \<Rightarrow> 'w params \<Rightarrow> 'w \<Rightarrow> thrown + response" where
  "transport_result d params w =
     (case body_text params of
        Inl t \<Rightarrow> Inl t
      | Inr btxt \<Rightarrow> fst (d_fetch d (url params) (init_of params btxt) w))"

definition after_transport :: "'w deps \<Rightarrow> 'w params \<Rightarrow> 'w \<Rightarrow> 'w" where
  "after_transport d params w =
     (case body_text params of
        Inl t \<Rightarrow> w
      | Inr btxt \<Rightarrow> snd (d_fetch d (url params) (init_of params btxt) w))"

definition transport_events :: "'w params \<Rightarrow> event list" where
  "transport_events params =
     (case body_text params of
        Inl t \<Rightarrow> []
      | Inr btxt \<Rightarrow> [EvFetch (url params) (init_of params btxt)])"

text \<open>
  The attempt: what \<open>execute\<close> does up to the recovery step. Where \<open>execute\<close> goes on
  with \<^verbatim>\<open>handleError(error)\<close>, the attempt ends with \<open>Failed error\<close>; where it returns a
  value, with \<open>Completed\<close>; where an unguarded call rejects, with \<open>Rejected\<close>. The lemma
  \<open>execute_attempt\<close> below proves that \<open>execute\<close> is the attempt followed by
  \<open>handleError\<close>.
\<close>

datatype attempt_result = Failed fetch_error | Completed jsval | Rejected thrown

definition attempt ::
  "('w \<Rightarrow> int) \<Rightarrow> 'w deps \<Rightarrow> 'w params \<Rightarrow> 'w \<Rightarrow> attempt_result \<times> event list \<times> 'w" where
  "attempt now d params w =
     (let start = now w;
          w1 = after_transport d params w;
          call = transport_events params
      in case transport_result d params w of
           Inl caught \<Rightarrow>
             (let detail = (case caught of ThrownError e \<Rightarrow> err_message e
                                        | ThrownValue v \<Rightarrow> String v);
                  error = NetworkError (''Network error: '' @ detail);
                  sp = span now d params start None False (Some error) w1
              in (Failed error, call @ fst sp, snd sp))
         | Inr response \<Rightarrow>
             if \<not> r_ok response then
               (let rawData = (case r_json response of None \<Rightarrow> JUndefined | Some v \<Rightarrow> v)
                in case decodeErrorBody rawData (fallback params)
                          (coalesce (errorSchema params) (d_errorSchema d))
                          (coalesce (errorMessage params) (d_errorMessage d)) of
                     Inl t \<Rightarrow> (Rejected t, call @ [EvJson], w1)
                   | Inr decoded \<Rightarrow>
                       (let error = HttpError (r_status response) (r_statusText response)
                                      (dec_message decoded)
                                      (case dec_data decoded of None \<Rightarrow> JUndefined
                                                              | Some v \<Rightarrow> v);
                            sp = span now d params start (Some (r_status response)) False
                                   (Some error) w1
                        in (Failed error, call @ EvJson # fst sp, snd sp)))
             else
               (case schema params of
                  None \<Rightarrow>
                    (let sp = span now d params start (Some (r_status response)) True None w1
                     in (Completed JUndefined, call @ fst sp, snd sp))
                | Some validate \<Rightarrow>
                    (let data = (case r_json response of None \<Rightarrow> JUndefined | Some v \<Rightarrow> v)
                     in case validate data of
                          Inl t \<Rightarrow> (Rejected t, call @ [EvJson], w1)
                        | Inr (Issues is) \<Rightarrow>
                            (let error = ParseError ''Unexpected response format''
                                           (map issue_message is);
                                 sp = span now d params start (Some (r_status response))
                                        False (Some error) w1
                             in (Failed error, call @ EvJson # fst sp, snd sp))
                        | Inr (Value v) \<Rightarrow>
                            (let sp = span now d params start (Some (r_status response))
                                        True None w1
                             in (Completed v, call @ EvJson # fst sp, snd sp)))))"

section \<open>Reading a run\<close>

text \<open>The settlement and the trace of a run, and the trace sorted by kind of event.\<close>

abbreviation outcome :: "'a \<times> event list \<times> 'w \<Rightarrow> 'a" where
  "outcome r \<equiv> fst r"

abbreviation trace :: "'a \<times> event list \<times> 'w \<Rightarrow> event list" where
  "trace r \<equiv> fst (snd r)"

primrec fetches :: "event list \<Rightarrow> (string \<times> request_init) list" where
  "fetches [] = []"
| "fetches (e # es) = (case e of EvFetch u i \<Rightarrow> (u, i) # fetches es | _ \<Rightarrow> fetches es)"

primrec spans :: "event list \<Rightarrow> span_event list" where
  "spans [] = []"
| "spans (e # es) = (case e of EvSpan ev \<Rightarrow> ev # spans es | _ \<Rightarrow> spans es)"

primrec catches :: "event list \<Rightarrow> fetch_error list" where
  "catches [] = []"
| "catches (e # es) = (case e of EvCatch err \<Rightarrow> err # catches es | _ \<Rightarrow> catches es)"

primrec retries :: "event list \<Rightarrow> request_options option list" where
  "retries [] = []"
| "retries (e # es) = (case e of EvRetry ro \<Rightarrow> ro # retries es | _ \<Rightarrow> retries es)"

primrec body_reads :: "event list \<Rightarrow> nat" where
  "body_reads [] = 0"
| "body_reads (e # es) = (case e of EvJson \<Rightarrow> Suc (body_reads es) | _ \<Rightarrow> body_reads es)"

text \<open>
  The sink and the hook that \<open>execute\<close> resolves at its start (the request-level value,
  else the instance-level one), the replacement headers among the options of a retry, and
  the descriptor that the retry function passes to \<open>execute\<close>.
\<close>

definition sink_of :: "'w deps \<Rightarrow> 'w params \<Rightarrow> (span_event \<Rightarrow> 'w \<Rightarrow> 'w) option" where
  "sink_of d params = coalesce (onSpan params) (d_onSpan d)"

definition hook_of :: "'w deps \<Rightarrow> 'w params \<Rightarrow> catch_handler option" where
  "hook_of d params = coalesce (catch params) (d_catch d)"

definition replacement :: "request_options option \<Rightarrow> header_map option" where
  "replacement retryOptions = (case retryOptions of None \<Rightarrow> None | Some ro \<Rightarrow> ro_headers ro)"

definition retry_params :: "'w params \<Rightarrow> request_options option \<Rightarrow> 'w params" where
  "retry_params params retryOptions =
     params\<lparr>headers :=
              resolveHeaders [Some (headers params),
                (case retryOptions of None \<Rightarrow> None | Some ro \<Rightarrow> ro_headers ro)],
            isRetry := Some True\<rparr>"


definition span_event_of ::
  "('w \<Rightarrow> int) \<Rightarrow> 'w params \<Rightarrow> 'w \<Rightarrow> 'w \<Rightarrow> int option \<Rightarrow> bool \<Rightarrow> fetch_error option \<Rightarrow>
     span_event" where
  "span_event_of now params w w1 st ok_flag err =
     \<lparr>ev_name = name params, ev_op = op params, ev_url = url params,
      ev_method = http_method params, ev_status = st,
      ev_durationMs = now w1 - now w, ev_ok = ok_flag, ev_error = err\<rparr>"


text \<open>
  A transport function changed so that the body-parse operation of its responses
  produces \<open>j\<close>.
\<close>

definition with_body ::
  "jsval option \<Rightarrow> (string \<Rightarrow> request_init \<Rightarrow> 'w \<Rightarrow> (thrown + response) \<times> 'w) \<Rightarrow>
     string \<Rightarrow> request_init \<Rightarrow> 'w \<Rightarrow> (thrown + response) \<times> 'w" where
  "with_body j f u init w =
     (case fst (f u init w) of
        Inl t \<Rightarrow> f u init w
      | Inr response \<Rightarrow> (Inr (response\<lparr>r_json := j\<rparr>), snd (f u init w)))"

text \<open>
  The spec's words: a layer supplies a key; the body is a non-null object carrying a
  string-typed field named \<^verbatim>\<open>error\<close>.
\<close>

definition supplies :: "string \<Rightarrow> header_map option \<Rightarrow> bool" where
  "supplies k layer = (case layer of None \<Rightarrow> False | Some m \<Rightarrow> m k \<noteq> None)"

definition error_string :: "jsval \<Rightarrow> string option" where
  "error_string data =
     (case data of
        JObj kvs \<Rightarrow> (case map_of kvs ''error'' of Some (JStr s) \<Rightarrow> Some s | _ \<Rightarrow> None)
      | _ \<Rightarrow> None)"

section \<open>A concrete world\<close>

text \<open>
  A world for the examples: the number of transport calls made so far, from which the
  timer is read, and the events that the sink has been given, in order. The transport
  function answers from a script, as a mock with queued responses does, and rejects once
  the script is used up. The schemas are the ones of the repository's test utilities,
  and one that throws.
\<close>

type_synonym test_world = "nat \<times> span_event list"

definition clock :: "test_world \<Rightarrow> int" where
  "clock w = 10 * int (fst w)"

definition record_span :: "span_event \<Rightarrow> test_world \<Rightarrow> test_world" where
  "record_span ev w = (fst w, snd w @ [ev])"

definition failed_to_fetch :: thrown where
  "failed_to_fetch =
     ThrownError \<lparr>err_name = ''TypeError'', err_message = ''Failed to fetch'',
                  err_fetchError = None\<rparr>"

definition scripted ::
  "(thrown + response) list \<Rightarrow> string \<Rightarrow> request_init \<Rightarrow> test_world \<Rightarrow>
     (thrown + response) \<times> test_world" where
  "scripted answers u init w =
     (if fst w < length answers then answers ! fst w else Inl failed_to_fetch,
      (Suc (fst w), snd w))"

definition unauthorized :: response where
  "unauthorized =
     \<lparr>r_ok = False, r_status = 401, r_statusText = ''Unauthorized'',
      r_json = Some (JObj [(''error'', JStr ''Bad token'')])\<rparr>"

definition ok_users :: response where
  "ok_users =
     \<lparr>r_ok = True, r_status = 200, r_statusText = ''OK'',
      r_json = Some (JObj [(''users'', JArr [])])\<rparr>"

definition always_valid :: standard_schema where
  "always_valid v = Inr (Value v)"

definition always_failing :: "string \<Rightarrow> standard_schema" where
  "always_failing msg v = Inr (Issues [Issue msg])"

definition schema_bug :: thrown where
  "schema_bug =
     ThrownError \<lparr>err_name = ''TypeError'',
                  err_message = ''Cannot read properties of undefined'',
                  err_fetchError = None\<rparr>"

definition throwing_schema :: standard_schema where
  "throwing_schema v = Inl schema_bug"

text \<open>
  Message extractors: the string conversion of the decoded value, and one that throws.
  Descriptors: the one of most examples, a sign-up, a body holding a BigInt and a body
  that is a function.
\<close>

definition code_of :: extractor where
  "code_of v = Inr (String v)"

definition throwing_extractor :: extractor where
  "throwing_extractor v = Inl schema_bug"

definition test_deps :: "(thrown + response) list \<Rightarrow> catch_handler option \<Rightarrow> test_world deps" where
  "test_deps answers h =
     \<lparr>d_fetch = scripted answers, d_onSpan = Some record_span, d_catch = h,
      d_errorMessage = None, d_errorSchema = None\<rparr>"

definition test_params :: "test_world params" where
  "test_params =
     \<lparr>url = ''/api/test'', http_method = ''GET'', op = Query, name = ''test'',
      fallback = ''failed'', headers = [''Authorization'' \<mapsto> ''Bearer old''],
      body = JUndefined, schema = None, credentials = Some ''include'',
      cache = Some ''no-store'', errorSchema = None, errorMessage = None,
      onSpan = None, catch = None, isRetry = None\<rparr>"




definition e401 :: fetch_error where
  "e401 = HttpError 401 ''Unauthorized'' ''Bad token'' JUndefined"

text \<open>
  Recovery hooks: return nothing; return \<^verbatim>\<open>retry()\<close>; await one retry and return a
  second one; throw; resolve with a substitute value; retry a 401 with a new token.
\<close>

definition swallow :: catch_handler where
  "swallow e = ReturnsNothing"

definition retry_always :: catch_handler where
  "retry_always e = CallsRetry None Returns"

definition retry_twice :: catch_handler where
  "retry_twice e = CallsRetry None (\<lambda>r. CallsRetry None Returns)"

definition session_expired :: thrown where
  "session_expired =
     ThrownError \<lparr>err_name = ''Error'', err_message = ''session expired'',
                  err_fetchError = None\<rparr>"

definition throwing_hook :: catch_handler where
  "throwing_hook e = Throws session_expired"

definition substitute :: catch_handler where
  "substitute e = Returns (Inr (JObj [(''users'', JArr [])]))"

definition new_token :: "request_options option" where
  "new_token = Some \<lparr>ro_headers = Some [''Authorization'' \<mapsto> ''Bearer new-token'']\<rparr>"

definition refresh :: catch_handler where
  "refresh e =
     (case e of
        HttpError st stt m dt \<Rightarrow> if st = 401 then CallsRetry new_token Returns else ReturnsNothing
      | _ \<Rightarrow> ReturnsNothing)"

lemma emit_emit: "emit xs (emit ys r) = emit (xs @ ys) r"
  by (cases r) (simp add: emit_def)

lemma emit_pair [simp]: "emit xs (out, p) = (out, xs @ fst p, snd p)"
  by (cases p) (simp add: emit_def)

lemma execute_attempt:
  "execute now d params w =
     (case attempt now d params w of
        (Failed e, evs, w2) \<Rightarrow> emit evs (handleError now d params e w2)
      | (Completed v, evs, w2) \<Rightarrow> (Inr v, evs, w2)
      | (Rejected t, evs, w2) \<Rightarrow> (Inl t, evs, w2))"
proof (cases "body_text params")
  case (Inl t)
  then show ?thesis
    unfolding execute.simps [of now d params w] attempt_def
    by (simp add: body_text_def transport_result_def after_transport_def
          transport_events_def Let_def emit_emit case_prod_beta)
next
  case (Inr btxt)
  note bt = this
  show ?thesis
  proof (cases "fst (d_fetch d (url params) (init_of params btxt) w)")
    case (Inl caught)
    with bt show ?thesis
      unfolding execute.simps [of now d params w] attempt_def
      by (simp add: body_text_def init_of_def transport_result_def after_transport_def
            transport_events_def Let_def emit_emit case_prod_beta)
  next
    case (Inr response)
    show ?thesis
    proof (cases "r_ok response")
      case False
      with bt Inr show ?thesis
        unfolding execute.simps [of now d params w] attempt_def
        by (simp add: body_text_def init_of_def transport_result_def after_transport_def
              transport_events_def Let_def emit_emit case_prod_beta split: sum.splits)
    next
      case True
      show ?thesis
      proof (cases "schema params")
        case None
        with bt Inr True show ?thesis
          unfolding execute.simps [of now d params w] attempt_def
          by (simp add: body_text_def init_of_def transport_result_def after_transport_def
                transport_events_def Let_def emit_emit case_prod_beta)
      next
        case (Some validate)
        with bt Inr True show ?thesis
          unfolding execute.simps [of now d params w] attempt_def
          by (simp add: body_text_def init_of_def transport_result_def after_transport_def
                transport_events_def Let_def emit_emit case_prod_beta
                split: sum.splits standard_result.splits)
      qed
    qed
  qed
qed

section \<open>The executor is the attempt followed by recovery\<close>

lemma fetches_append [simp]: "fetches (xs @ ys) = fetches xs @ fetches ys"
  by (induction xs) (auto split: event.splits)

lemma spans_append [simp]: "spans (xs @ ys) = spans xs @ spans ys"
  by (induction xs) (auto split: event.splits)

lemma catches_append [simp]: "catches (xs @ ys) = catches xs @ catches ys"
  by (induction xs) (auto split: event.splits)

lemma retries_append [simp]: "retries (xs @ ys) = retries xs @ retries ys"
  by (induction xs) (auto split: event.splits)

lemma body_reads_append [simp]: "body_reads (xs @ ys) = body_reads xs + body_reads ys"
  by (induction xs) (auto split: event.splits)

lemma span_events:
  "fst (span now d params start st ok_flag err w1) =
     (case sink_of d params of
        None \<Rightarrow> []
      | Some sink \<Rightarrow>
          [EvSpan \<lparr>ev_name = name params, ev_op = op params, ev_url = url params,
                   ev_method = http_method params, ev_status = st,
                   ev_durationMs = now w1 - start, ev_ok = ok_flag, ev_error = err\<rparr>])"
  by (simp add: span_def sink_of_def Let_def split: option.splits)

lemma span_world:
  "snd (span now d params start st ok_flag err w1) =
     (case sink_of d params of
        None \<Rightarrow> w1
      | Some sink \<Rightarrow>
          sink \<lparr>ev_name = name params, ev_op = op params, ev_url = url params,
                ev_method = http_method params, ev_status = st,
                ev_durationMs = now w1 - start, ev_ok = ok_flag, ev_error = err\<rparr> w1)"
  by (simp add: span_def sink_of_def Let_def split: option.splits)

lemma span_projections [simp]:
  "fetches (fst (span now d params start st ok_flag err w)) = []"
  "catches (fst (span now d params start st ok_flag err w)) = []"
  "retries (fst (span now d params start st ok_flag err w)) = []"
  "body_reads (fst (span now d params start st ok_flag err w)) = 0"
  by (simp_all add: span_events split: option.splits)

lemma transport_events_projections [simp]:
  "catches (transport_events params) = []"
  "retries (transport_events params) = []"
  "spans (transport_events params) = []"
  "body_reads (transport_events params) = 0"
  "fetches (transport_events params) =
     (case body_text params of Inl t \<Rightarrow> [] | Inr btxt \<Rightarrow> [(url params, init_of params btxt)])"
  by (simp_all add: transport_events_def split: sum.splits)

lemma attempt_projections:
  "fetches (trace (attempt now d params w)) = fetches (transport_events params)"
  "catches (trace (attempt now d params w)) = []"
  "retries (trace (attempt now d params w)) = []"
  by (simp_all add: attempt_def Let_def
        split: sum.splits option.splits standard_result.splits)

lemma attempt_trace_prefix:
  "\<exists>rest. trace (attempt now d params w) = transport_events params @ rest"
  by (simp add: attempt_def Let_def split: sum.splits option.splits standard_result.splits)

lemma handleError_escalates:
  "is_retry params \<or> hook_of d params = None \<Longrightarrow>
     handleError now d params e w = (Inl (ThrownError (toError e)), [], w)"
  by (auto simp: handleError.simps hook_of_def split: option.splits)

lemma handleError_hook:
  "\<not> is_retry params \<Longrightarrow> hook_of d params = Some h \<Longrightarrow>
     handleError now d params e w = emit [EvCatch e] (run_hook now d params (h e) w)"
  by (simp add: handleError.simps hook_of_def)

lemma is_retry_retry_params [simp]: "is_retry (retry_params params ro)"
  by (simp add: retry_params_def is_retry_def)

lemma sink_of_retry_params [simp]: "sink_of d (retry_params params ro) = sink_of d params"
  by (simp add: retry_params_def sink_of_def)

lemma body_text_retry_params [simp]: "body_text (retry_params params ro) = body_text params"
  by (simp add: retry_params_def body_text_def)

lemma run_hook_retry:
  "run_hook now d params (CallsRetry ro k) w =
     (let retried = execute now d (retry_params params ro) w
      in emit (EvRetry ro # trace retried)
           (run_hook now d params (k (outcome retried)) (snd (snd retried))))"
  by (simp add: retry_params_def)

declare run_hook.simps(4) [simp del]

lemma emit_trace [simp]: "trace (emit evs r) = evs @ trace r"
  by (cases r) (simp add: emit_def)

lemma emit_outcome [simp]: "outcome (emit evs r) = outcome r"
  by (cases r) (simp add: emit_def)

lemma emit_world [simp]: "snd (snd (emit evs r)) = snd (snd r)"
  by (cases r) (simp add: emit_def)

lemma execute_failed:
  "outcome (attempt now d params w) = Failed e \<Longrightarrow>
     execute now d params w =
       emit (trace (attempt now d params w))
         (handleError now d params e (snd (snd (attempt now d params w))))"
  by (cases "attempt now d params w") (simp add: execute_attempt)

lemma execute_escalates:
  "is_retry params \<or> hook_of d params = None \<Longrightarrow>
   outcome (attempt now d params w) = Failed e \<Longrightarrow>
     execute now d params w =
       (Inl (ThrownError (toError e)), trace (attempt now d params w),
        snd (snd (attempt now d params w)))"
  by (simp add: execute_failed handleError_escalates)

lemma execute_hook:
  "\<not> is_retry params \<Longrightarrow> hook_of d params = Some h \<Longrightarrow>
   outcome (attempt now d params w) = Failed e \<Longrightarrow>
     execute now d params w =
       emit (trace (attempt now d params w) @ [EvCatch e])
         (run_hook now d params (h e) (snd (snd (attempt now d params w))))"
  by (simp add: execute_failed handleError_hook emit_emit)

lemma execute_completed:
  "outcome (attempt now d params w) = Completed v \<Longrightarrow>
     execute now d params w =
       (Inr v, trace (attempt now d params w), snd (snd (attempt now d params w)))"
  by (cases "attempt now d params w") (simp add: execute_attempt)

lemma execute_rejected:
  "outcome (attempt now d params w) = Rejected t \<Longrightarrow>
     execute now d params w =
       (Inl t, trace (attempt now d params w), snd (snd (attempt now d params w)))"
  by (cases "attempt now d params w") (simp add: execute_attempt)

lemma execute_retry_trace:
  "is_retry params \<Longrightarrow> trace (execute now d params w) = trace (attempt now d params w)"
  by (cases "outcome (attempt now d params w)")
     (simp_all add: execute_escalates execute_completed execute_rejected)

lemma run_hook_projections:
  "catches (trace (run_hook now d params h w)) = [] \<and>
   (\<forall>t. body_text params = Inl t \<longrightarrow> fetches (trace (run_hook now d params h w)) = [])"
proof (induction h arbitrary: w)
  case (CallsRetry ro k)
  let ?retried = "execute now d (retry_params params ro) w"
  have tr: "trace ?retried = trace (attempt now d (retry_params params ro) w)"
    by (simp add: execute_retry_trace)
  have step: "trace (run_hook now d params (CallsRetry ro k) w) =
      EvRetry ro # trace ?retried @
        trace (run_hook now d params (k (outcome ?retried)) (snd (snd ?retried)))"
    by (simp add: run_hook_retry Let_def)
  show ?case
    using CallsRetry.IH [OF rangeI, of "outcome ?retried" "snd (snd ?retried)"]
    by (simp add: step tr attempt_projections)
qed simp_all

lemma execute_trace_shape:
  "\<exists>rest. trace (execute now d params w) = trace (attempt now d params w) @ rest \<and>
     (case outcome (attempt now d params w) of
        Completed v \<Rightarrow> rest = [] \<and> outcome (execute now d params w) = Inr v
      | Rejected t \<Rightarrow> rest = [] \<and> outcome (execute now d params w) = Inl t
      | Failed e \<Rightarrow>
          if is_retry params \<or> hook_of d params = None
          then rest = [] \<and> outcome (execute now d params w) = Inl (ThrownError (toError e))
          else \<exists>rest'. rest = EvCatch e # rest')"
proof (cases "outcome (attempt now d params w)")
  case (Completed v)
  then show ?thesis by (simp add: execute_completed)
next
  case (Rejected t)
  then show ?thesis by (simp add: execute_rejected)
next
  case (Failed e)
  show ?thesis
  proof (cases "is_retry params \<or> hook_of d params = None")
    case True
    with Failed show ?thesis by (simp add: execute_escalates)
  next
    case False
    then obtain h where "\<not> is_retry params" "hook_of d params = Some h" by auto
    with Failed False show ?thesis by (simp add: execute_hook)
  qed
qed

section \<open>Recovery\<close>

lemmas run_simps =
  execute.simps handleError.simps run_hook.simps attempt_def body_text_def init_of_def
  transport_result_def after_transport_def transport_events_def JSON_stringify_def
  left_out_def span_def emit_def
  coalesce_def is_retry_def hook_of_def sink_of_def retry_params_def
  decodeErrorBody_def hasErrorString_def typeof_object_def has_property_def get_property_def
  typeof_string_def str_of_def Let_def
  clock_def record_span_def scripted_def unauthorized_def ok_users_def test_deps_def
  test_params_def failed_to_fetch_def e401_def

text \<open>
  Claim C1. The hook awaits one call of the retry function and then returns a second
  one, and the transport function answers 401 every time: the retry function works
  twice for the one request, so that there are two retried attempts and three transport
  calls before \<open>execute\<close> rejects with the error of the last attempt.
\<close>

theorem retry_twice_failing_input:
  "\<not> is_retry test_params \<and>
   length (retries (trace (execute clock
     (test_deps [Inr unauthorized, Inr unauthorized, Inr unauthorized] (Some retry_twice))
     test_params (0, [])))) = 2 \<and>
   length (fetches (trace (execute clock
     (test_deps [Inr unauthorized, Inr unauthorized, Inr unauthorized] (Some retry_twice))
     test_params (0, [])))) = 3 \<and>
   catches (trace (execute clock
     (test_deps [Inr unauthorized, Inr unauthorized, Inr unauthorized] (Some retry_twice))
     test_params (0, []))) = [e401] \<and>
   outcome (execute clock
     (test_deps [Inr unauthorized, Inr unauthorized, Inr unauthorized] (Some retry_twice))
     test_params (0, [])) = Inl (ThrownError (toError e401))"
proof -
  have "case execute clock
      (test_deps [Inr unauthorized, Inr unauthorized, Inr unauthorized] (Some retry_twice))
      test_params (0, []) of
    (out, evs, w') \<Rightarrow>
      length (retries evs) = 2 \<and> length (fetches evs) = 3 \<and> catches evs = [e401] \<and>
      out = Inl (ThrownError (toError e401))"
    by (simp add: run_simps retry_twice_def)
  then show ?thesis
    by (simp add: case_prod_beta is_retry_def test_params_def)
qed

text \<open>
  Claim C3, as amended. An attempt that produces a Classified Error ends in one of four
  ways. Without a hook, or on a retried attempt, \<open>execute\<close> rejects with the converted
  error: its message is the error's message, its name is \<^verbatim>\<open>FetchError.\<close> followed by
  the variant tag, and it carries the error as \<open>fetchError\<close>. Otherwise the hook decides:
  if it returns nothing, \<open>execute\<close> resolves with \<^verbatim>\<open>undefined\<close>; if it resolves with a
  value, that value is the result; and if it throws, or returns a promise that rejects
  (the promise of a failed retry, for instance), \<open>execute\<close> rejects with that same thrown
  value. After a call of the retry function the same holds of the way the hook goes on.
\<close>

theorem recovery_outcomes:
  "outcome (attempt now d params w) = Failed e \<longrightarrow>
     (is_retry params \<or> hook_of d params = None \<longrightarrow>
        outcome (execute now d params w) = Inl (ThrownError (toError e)) \<and>
        err_message (toError e) = fe_message e \<and>
        err_name (toError e) = ''FetchError.'' @ fe_type e \<and>
        err_fetchError (toError e) = Some e \<and>
        (fe_type e = ''network'' \<or> fe_type e = ''http'' \<or> fe_type e = ''parse'')) \<and>
     (\<not> is_retry params \<and> hook_of d params = Some h \<longrightarrow>
        (h e = ReturnsNothing \<longrightarrow> outcome (execute now d params w) = Inr JUndefined) \<and>
        (h e = Returns (Inr v) \<longrightarrow> outcome (execute now d params w) = Inr v) \<and>
        (h e = Returns (Inl t) \<longrightarrow> outcome (execute now d params w) = Inl t) \<and>
        (h e = Throws t \<longrightarrow> outcome (execute now d params w) = Inl t) \<and>
        (h e = CallsRetry ro k \<longrightarrow>
           outcome (execute now d params w) =
             (let retried = execute now d (retry_params params ro)
                              (snd (snd (attempt now d params w)))
              in outcome (run_hook now d params (k (outcome retried)) (snd (snd retried))))) \<and>
        (h e = CallsRetry ro Returns \<longrightarrow>
           outcome (execute now d params w) =
             outcome (execute now d (retry_params params ro)
                        (snd (snd (attempt now d params w))))))"
proof -
  have esc: "outcome (execute now d params w) = Inl (ThrownError (toError e))"
    if "outcome (attempt now d params w) = Failed e" "is_retry params \<or> hook_of d params = None"
    using that by (simp add: execute_escalates)
  have conv: "err_message (toError e) = fe_message e \<and>
      err_name (toError e) = ''FetchError.'' @ fe_type e \<and>
      err_fetchError (toError e) = Some e \<and>
      (fe_type e = ''network'' \<or> fe_type e = ''http'' \<or> fe_type e = ''parse'')"
    by (cases e) (simp_all add: toError_def)
  have hook: "outcome (execute now d params w) =
      outcome (run_hook now d params (h e) (snd (snd (attempt now d params w))))"
    if "outcome (attempt now d params w) = Failed e" "\<not> is_retry params"
      "hook_of d params = Some h"
    using that by (simp add: execute_hook)
  show ?thesis
    using esc conv hook
    by (auto simp: run_hook_retry Let_def)
qed

theorem recovery_outcomes_witness:
  "outcome (attempt clock (test_deps [Inr unauthorized] None) test_params (0, [])) = Failed e401 \<and>
   hook_of (test_deps [Inr unauthorized] None) test_params = None \<and>
   outcome (execute clock (test_deps [Inr unauthorized] None) test_params (0, [])) =
     Inl (ThrownError (toError e401)) \<and>
   err_name (toError e401) = ''FetchError.http'' \<and>
   outcome (execute clock (test_deps [Inr unauthorized] (Some swallow)) test_params (0, [])) =
     Inr JUndefined \<and>
   outcome (execute clock (test_deps [Inr unauthorized] (Some substitute)) test_params (0, [])) =
     Inr (JObj [(''users'', JArr [])]) \<and>
   outcome (execute clock (test_deps [Inr unauthorized] (Some throwing_hook)) test_params (0, [])) =
     Inl session_expired"
proof -
  have a: "outcome (attempt clock (test_deps [Inr unauthorized] h) test_params (0, [])) = Failed e401"
    for h
    by (simp add: run_simps)
  have r: "\<not> is_retry test_params"
    by (simp add: is_retry_def test_params_def)
  have h: "hook_of (test_deps [Inr unauthorized] h) test_params = h" for h
    by (simp add: hook_of_def coalesce_def test_deps_def test_params_def)
  have "outcome (execute clock (test_deps [Inr unauthorized] None) test_params (0, [])) =
      Inl (ThrownError (toError e401)) \<and> err_name (toError e401) = ''FetchError.http''"
    using a [of None] h [of None]
      recovery_outcomes [where now = clock and d = "test_deps [Inr unauthorized] None"
        and params = test_params and w = "(0, [])" and e = e401]
    by (simp add: e401_def)
  moreover have "outcome (execute clock (test_deps [Inr unauthorized] (Some swallow))
      test_params (0, [])) = Inr JUndefined"
    using a [of "Some swallow"] h [of "Some swallow"] r
      recovery_outcomes [where now = clock and d = "test_deps [Inr unauthorized] (Some swallow)"
        and params = test_params and w = "(0, [])" and e = e401 and h = swallow]
    by (simp add: swallow_def)
  moreover have "outcome (execute clock (test_deps [Inr unauthorized] (Some substitute))
      test_params (0, [])) = Inr (JObj [(''users'', JArr [])])"
    using a [of "Some substitute"] h [of "Some substitute"] r
      recovery_outcomes [where now = clock
        and d = "test_deps [Inr unauthorized] (Some substitute)"
        and params = test_params and w = "(0, [])" and e = e401 and h = substitute
        and v = "JObj [(''users'', JArr [])]"]
    by (simp add: substitute_def)
  moreover have "outcome (execute clock (test_deps [Inr unauthorized] (Some throwing_hook))
      test_params (0, [])) = Inl session_expired"
    using a [of "Some throwing_hook"] h [of "Some throwing_hook"] r
      recovery_outcomes [where now = clock
        and d = "test_deps [Inr unauthorized] (Some throwing_hook)"
        and params = test_params and w = "(0, [])" and e = e401 and h = throwing_hook
        and t = session_expired]
    by (simp add: throwing_hook_def)
  ultimately show ?thesis
    using a [of None] h [of None] by simp
qed

text \<open>
  A hook that throws an error of its own: \<open>execute\<close> neither resolves nor rejects with
  the converted Classified Error of the attempt.
\<close>

theorem hook_throws_counterexample:
  "hook_of (test_deps [Inr unauthorized] (Some throwing_hook)) test_params =
     Some throwing_hook \<and>
   \<not> is_retry test_params \<and>
   outcome (attempt clock (test_deps [Inr unauthorized] (Some throwing_hook)) test_params (0, [])) =
     Failed e401 \<and>
   outcome (execute clock (test_deps [Inr unauthorized] (Some throwing_hook)) test_params (0, [])) =
     Inl session_expired \<and>
   session_expired \<noteq> ThrownError (toError e401)"
  by (simp add: run_simps throwing_hook_def session_expired_def toError_def)

text \<open>
  Claim C2. The response schema's \<^verbatim>\<open>validate\<close> throws on a successful response (and,
  in the second run, the error schema's on a failed one): the attempt makes its
  transport call and reads the body, and \<open>execute\<close> rejects with what was thrown; the
  sink, though configured, is never invoked, and neither is the hook.
\<close>

theorem span_missing_failing_input:
  "sink_of (test_deps [Inr ok_users] (Some swallow))
     (test_params\<lparr>schema := Some throwing_schema\<rparr>) = Some record_span \<and>
   trace (execute clock (test_deps [Inr ok_users] (Some swallow))
     (test_params\<lparr>schema := Some throwing_schema\<rparr>) (0, [])) =
     [EvFetch ''/api/test'' (init_of test_params None), EvJson] \<and>
   snd (snd (execute clock (test_deps [Inr ok_users] (Some swallow))
     (test_params\<lparr>schema := Some throwing_schema\<rparr>) (0, []))) = (1, []) \<and>
   outcome (execute clock (test_deps [Inr ok_users] (Some swallow))
     (test_params\<lparr>schema := Some throwing_schema\<rparr>) (0, [])) = Inl schema_bug \<and>
   trace (execute clock (test_deps [Inr unauthorized] (Some swallow))
     (test_params\<lparr>errorSchema := Some throwing_schema\<rparr>) (0, [])) =
     [EvFetch ''/api/test'' (init_of test_params None), EvJson] \<and>
   snd (snd (execute clock (test_deps [Inr unauthorized] (Some swallow))
     (test_params\<lparr>errorSchema := Some throwing_schema\<rparr>) (0, []))) = (1, []) \<and>
   outcome (execute clock (test_deps [Inr unauthorized] (Some swallow))
     (test_params\<lparr>errorSchema := Some throwing_schema\<rparr>) (0, [])) = Inl schema_bug"
proof -
  have "case execute clock (test_deps [Inr ok_users] (Some swallow))
      (test_params\<lparr>schema := Some throwing_schema\<rparr>) (0, []) of
    (out, evs, w') \<Rightarrow>
      evs = [EvFetch ''/api/test'' (init_of test_params None), EvJson] \<and> w' = (1, []) \<and>
      out = Inl schema_bug"
    by (simp add: run_simps throwing_schema_def)
  moreover have "case execute clock (test_deps [Inr unauthorized] (Some swallow))
      (test_params\<lparr>errorSchema := Some throwing_schema\<rparr>) (0, []) of
    (out, evs, w') \<Rightarrow>
      evs = [EvFetch ''/api/test'' (init_of test_params None), EvJson] \<and> w' = (1, []) \<and>
      out = Inl schema_bug"
    by (simp add: run_simps throwing_schema_def)
  ultimately show ?thesis
    by (simp add: case_prod_beta sink_of_def coalesce_def test_deps_def test_params_def)
qed

section \<open>Successful responses and transport failures\<close>

lemma transport_facts:
  assumes "body_text params = Inr btxt"
  shows "transport_result d params w = fst (d_fetch d (url params) (init_of params btxt) w)"
    and "after_transport d params w = snd (d_fetch d (url params) (init_of params btxt) w)"
    and "transport_events params = [EvFetch (url params) (init_of params btxt)]"
  using assms
  by (simp_all add: transport_result_def after_transport_def transport_events_def)


lemma attempt_success_no_schema:
  assumes "transport_result d params w = Inr response"
    and "r_ok response" and "schema params = None"
  shows "outcome (attempt now d params w) = Completed JUndefined"
    and "trace (attempt now d params w) =
      transport_events params @
        (case sink_of d params of
           None \<Rightarrow> []
         | Some sink \<Rightarrow>
             [EvSpan (span_event_of now params w (after_transport d params w)
                (Some (r_status response)) True None)])"
    and "snd (snd (attempt now d params w)) =
        (case sink_of d params of
           None \<Rightarrow> after_transport d params w
         | Some sink \<Rightarrow>
             sink (span_event_of now params w (after_transport d params w)
                (Some (r_status response)) True None) (after_transport d params w))"
  using assms
  by (simp_all add: attempt_def Let_def span_events span_world span_event_of_def
        split: option.splits)







section \<open>The header resolver\<close>

lemma resolveHeaders_snoc:
  "resolveHeaders (layers @ [layer]) = assign (resolveHeaders layers) layer"
  by (simp add: resolveHeaders_def)

lemma resolveHeaders_unsupplied:
  "list_all (\<lambda>layer. \<not> supplies k layer) layers \<Longrightarrow>
     resolveHeaders layers k = [''Accept'' \<mapsto> ''application/json''] k"
proof (induction layers rule: rev_induct)
  case Nil
  show ?case by (simp add: resolveHeaders_def)
next
  case (snoc layer layers)
  then show ?case
    by (cases layer)
       (auto simp: resolveHeaders_snoc assign_def assignable_def supplies_def map_add_def)
qed

lemma resolveHeaders_Accept: "resolveHeaders layers ''Accept'' \<noteq> None"
proof (induction layers rule: rev_induct)
  case Nil
  show ?case by (simp add: resolveHeaders_def)
next
  case (snoc layer layers)
  then show ?case
    by (cases layer)
       (auto simp: resolveHeaders_snoc assign_def assignable_def map_add_def
          split: option.splits)
qed

lemma resolveHeaders_proto: "resolveHeaders layers ''__proto__'' = None"
proof (induction layers rule: rev_induct)
  case Nil
  show ?case by (simp add: resolveHeaders_def)
next
  case (snoc layer layers)
  then show ?case
    by (cases layer)
       (auto simp: resolveHeaders_snoc assign_def assignable_def map_add_def
          split: option.splits)
qed

text \<open>
  Claim C8, as amended. \<open>resolveHeaders\<close> starts from the base holding exactly the
  default entry \<^verbatim>\<open>Accept: application/json\<close> and applies the layers in argument order:
  an undefined layer is skipped, and a later layer's keys overwrite the same keys of
  what came before, except that a layer's key \<^verbatim>\<open>__proto__\<close> is never copied, so that
  the result has no such entry. The result always has an \<^verbatim>\<open>Accept\<close> entry, and it is
  the default one unless some layer supplies that key.
\<close>

theorem resolveHeaders_merge:
  "resolveHeaders [] = [''Accept'' \<mapsto> ''application/json''] \<and>
   resolveHeaders (layers @ [None]) = resolveHeaders layers \<and>
   resolveHeaders (layers @ [Some m]) k =
     (if k = ''__proto__'' then None
      else case m k of Some v \<Rightarrow> Some v | None \<Rightarrow> resolveHeaders layers k) \<and>
   resolveHeaders layers ''__proto__'' = None \<and>
   resolveHeaders layers ''Accept'' \<noteq> None \<and>
   (list_all (\<lambda>layer. \<not> supplies ''Accept'' layer) layers \<longrightarrow>
      resolveHeaders layers ''Accept'' = Some ''application/json'')"
proof -
  have "resolveHeaders [] = [''Accept'' \<mapsto> ''application/json'']"
    by (simp add: resolveHeaders_def)
  moreover have "resolveHeaders (layers @ [None]) = resolveHeaders layers"
    by (simp add: resolveHeaders_snoc assign_def)
  moreover have "resolveHeaders (layers @ [Some m]) k =
      (if k = ''__proto__'' then None
       else case m k of Some v \<Rightarrow> Some v | None \<Rightarrow> resolveHeaders layers k)"
    using resolveHeaders_proto [of layers]
    by (simp add: resolveHeaders_snoc assign_def assignable_def map_add_def
          split: option.splits)
  moreover have "resolveHeaders layers ''__proto__'' = None"
    by (rule resolveHeaders_proto)
  moreover have "resolveHeaders layers ''Accept'' \<noteq> None"
    by (rule resolveHeaders_Accept)
  moreover have "list_all (\<lambda>layer. \<not> supplies ''Accept'' layer) layers \<longrightarrow>
      resolveHeaders layers ''Accept'' = Some ''application/json''"
    using resolveHeaders_unsupplied [of "''Accept''" layers] by simp
  ultimately show ?thesis by blast
qed

theorem resolveHeaders_merge_witness:
  "list_all (\<lambda>layer. \<not> supplies ''Accept'' layer)
     [Some [''X-App'' \<mapsto> ''1.0''], None, Some [''Authorization'' \<mapsto> ''Bearer old'']] \<and>
   resolveHeaders [Some [''X-App'' \<mapsto> ''1.0''], None, Some [''Authorization'' \<mapsto> ''Bearer old'']]
     ''Accept'' = Some ''application/json'' \<and>
   resolveHeaders ([Some [''Authorization'' \<mapsto> ''Bearer old'']] @ [Some [''Authorization'' \<mapsto> ''Bearer new'']])
     ''Authorization'' = Some ''Bearer new''"
  using resolveHeaders_merge
    [of "[Some [''X-App'' \<mapsto> ''1.0''], None, Some [''Authorization'' \<mapsto> ''Bearer old'']]"
        "[''Authorization'' \<mapsto> ''Bearer new'']" "''Authorization''"]
    resolveHeaders_merge
    [of "[Some [''Authorization'' \<mapsto> ''Bearer old'']]"
        "[''Authorization'' \<mapsto> ''Bearer new'']" "''Authorization''"]
  by (simp add: supplies_def)

text \<open>
  A layer whose own key is \<^verbatim>\<open>__proto__\<close>: the layer supplies the key, and the result
  does not have it.
\<close>

theorem proto_key_counterexample:
  "supplies ''__proto__'' (Some [''__proto__'' \<mapsto> ''x'']) \<and>
   resolveHeaders [Some [''__proto__'' \<mapsto> ''x'']] ''__proto__'' = None"
  by (simp add: supplies_def resolveHeaders_def assign_def assignable_def map_add_def)

section \<open>The error-body decoder\<close>

lemma has_property_map_of:
  "has_property k (JObj kvs) \<longleftrightarrow> map_of kvs k \<noteq> None"
  by (simp add: has_property_def map_of_eq_None_iff)

lemma hasErrorString_iff: "hasErrorString data \<longleftrightarrow> error_string data \<noteq> None"
proof (cases data)
  case (JObj kvs)
  then show ?thesis
    by (auto simp: hasErrorString_def error_string_def typeof_object_def has_property_map_of
          get_property_def typeof_string_def split: jsval.splits option.splits)
qed (simp_all add: hasErrorString_def error_string_def typeof_object_def has_property_def)

lemma error_string_property:
  "error_string data = Some s \<Longrightarrow> str_of (get_property ''error'' data) = s"
  by (auto simp: error_string_def get_property_def str_of_def split: jsval.splits option.splits)

text \<open>
  Claim C5, as amended. \<open>decodeErrorBody\<close> fails exactly when the error schema's
  \<^verbatim>\<open>validate\<close> throws or rejects, or when validation succeeds and the extractor throws,
  and then with what was thrown; without an error schema it never fails. Otherwise its
  result is: without an error schema, the string-typed \<^verbatim>\<open>error\<close> field of an object
  body as the message, else the fallback, in both cases without data; with an error
  schema, the fallback without data when validation reports issues, and otherwise the
  extractor's message (the fallback when there is no extractor) together with the decoded
  value as data.
\<close>

theorem decodeErrorBody_cases:
  "(eschema = None \<and> error_string data = Some s \<longrightarrow>
      decodeErrorBody data fb eschema extractor =
        Inr \<lparr>dec_message = s, dec_data = None\<rparr>) \<and>
   (eschema = None \<and> error_string data = None \<longrightarrow>
      decodeErrorBody data fb eschema extractor =
        Inr \<lparr>dec_message = fb, dec_data = None\<rparr>) \<and>
   (eschema = Some validate \<and> validate data = Inr (Issues is) \<longrightarrow>
      decodeErrorBody data fb eschema extractor =
        Inr \<lparr>dec_message = fb, dec_data = None\<rparr>) \<and>
   (eschema = Some validate \<and> validate data = Inr (Value v) \<and> extractor = Some ex \<and>
    ex v = Inr msg \<longrightarrow>
      decodeErrorBody data fb eschema extractor =
        Inr \<lparr>dec_message = msg, dec_data = Some v\<rparr>) \<and>
   (eschema = Some validate \<and> validate data = Inr (Value v) \<and> extractor = None \<longrightarrow>
      decodeErrorBody data fb eschema extractor =
        Inr \<lparr>dec_message = fb, dec_data = Some v\<rparr>) \<and>
   (eschema = Some validate \<and> validate data = Inl t \<longrightarrow>
      decodeErrorBody data fb eschema extractor = Inl t) \<and>
   (eschema = Some validate \<and> validate data = Inr (Value v) \<and> extractor = Some ex \<and>
    ex v = Inl t \<longrightarrow>
      decodeErrorBody data fb eschema extractor = Inl t) \<and>
   (decodeErrorBody data fb eschema extractor = Inl t \<longleftrightarrow>
      (\<exists>validate'. eschema = Some validate' \<and>
         (validate' data = Inl t \<or>
          (\<exists>v' ex'. validate' data = Inr (Value v') \<and> extractor = Some ex' \<and>
             ex' v' = Inl t))))"
proof -
  have cases: "(eschema = None \<and> error_string data = Some s \<longrightarrow>
      decodeErrorBody data fb eschema extractor =
        Inr \<lparr>dec_message = s, dec_data = None\<rparr>) \<and>
   (eschema = None \<and> error_string data = None \<longrightarrow>
      decodeErrorBody data fb eschema extractor =
        Inr \<lparr>dec_message = fb, dec_data = None\<rparr>)"
    using hasErrorString_iff [of data] error_string_property [of data s]
    by (auto simp: decodeErrorBody_def)
  have fails: "decodeErrorBody data fb eschema extractor = Inl t \<longleftrightarrow>
      (\<exists>validate'. eschema = Some validate' \<and>
         (validate' data = Inl t \<or>
          (\<exists>v' ex'. validate' data = Inr (Value v') \<and> extractor = Some ex' \<and>
             ex' v' = Inl t)))"
    by (auto simp: decodeErrorBody_def split: option.splits sum.splits standard_result.splits)
  show ?thesis
    using cases fails
    by (auto simp: decodeErrorBody_def)
qed

theorem decodeErrorBody_cases_witness:
  "decodeErrorBody (JObj [(''error'', JStr ''User not found'')]) ''failed'' None None =
     Inr \<lparr>dec_message = ''User not found'', dec_data = None\<rparr> \<and>
   decodeErrorBody (JArr [JStr ''error'']) ''failed'' None None =
     Inr \<lparr>dec_message = ''failed'', dec_data = None\<rparr> \<and>
   decodeErrorBody (JObj [(''error'', JStr ''Bad'')]) ''failed''
       (Some (always_failing ''expected code'')) (Some code_of) =
     Inr \<lparr>dec_message = ''failed'', dec_data = None\<rparr> \<and>
   decodeErrorBody (JStr ''E42'') ''failed'' (Some always_valid) (Some code_of) =
     Inr \<lparr>dec_message = ''E42'', dec_data = Some (JStr ''E42'')\<rparr> \<and>
   decodeErrorBody (JStr ''E42'') ''failed'' (Some always_valid) None =
     Inr \<lparr>dec_message = ''failed'', dec_data = Some (JStr ''E42'')\<rparr> \<and>
   decodeErrorBody (JStr ''E42'') ''failed'' (Some throwing_schema) None = Inl schema_bug \<and>
   decodeErrorBody (JStr ''E42'') ''failed'' (Some always_valid) (Some throwing_extractor) =
     Inl schema_bug"
  using
    decodeErrorBody_cases [where eschema = None
      and data = "JObj [(''error'', JStr ''User not found'')]"
      and s = "''User not found''" and fb = "''failed''" and extractor = None]
    decodeErrorBody_cases [where eschema = None and data = "JArr [JStr ''error'']"
      and fb = "''failed''" and extractor = None]
    decodeErrorBody_cases [where eschema = "Some (always_failing ''expected code'')"
      and data = "JObj [(''error'', JStr ''Bad'')]" and fb = "''failed''"
      and ?is = "[Issue ''expected code'']" and extractor = "Some code_of"
      and validate = "always_failing ''expected code''"]
    decodeErrorBody_cases [where eschema = "Some always_valid" and data = "JStr ''E42''"
      and fb = "''failed''" and extractor = "Some code_of" and validate = always_valid
      and v = "JStr ''E42''" and ex = code_of and msg = "''E42''"]
    decodeErrorBody_cases [where eschema = "Some always_valid" and data = "JStr ''E42''"
      and fb = "''failed''" and extractor = None and validate = always_valid
      and v = "JStr ''E42''"]
    decodeErrorBody_cases [where eschema = "Some throwing_schema" and data = "JStr ''E42''"
      and fb = "''failed''" and extractor = None and validate = throwing_schema
      and t = schema_bug]
    decodeErrorBody_cases [where eschema = "Some always_valid" and data = "JStr ''E42''"
      and fb = "''failed''" and extractor = "Some throwing_extractor"
      and validate = always_valid and v = "JStr ''E42''" and ex = throwing_extractor
      and t = schema_bug]
  by (simp add: error_string_def always_valid_def always_failing_def code_of_def
        throwing_schema_def throwing_extractor_def)

text \<open>
  An error schema whose \<^verbatim>\<open>validate\<close> throws, and an extractor that throws:
  \<open>decodeErrorBody\<close> fails.
\<close>

theorem decodeErrorBody_fails_counterexample:
  "decodeErrorBody (JObj [(''error'', JStr ''Bad token'')]) ''failed''
     (Some throwing_schema) None = Inl schema_bug \<and>
   decodeErrorBody (JObj [(''error'', JStr ''Bad token'')]) ''failed''
     (Some always_valid) (Some throwing_extractor) = Inl schema_bug"
  by (simp add: decodeErrorBody_def throwing_schema_def always_valid_def
        throwing_extractor_def)

section \<open>The transport request\<close>

lemma attempt_world:
  "snd (snd (attempt now d params w)) =
     (case sink_of d params of
        None \<Rightarrow> after_transport d params w
      | Some sink \<Rightarrow>
          fold sink (spans (trace (attempt now d params w))) (after_transport d params w))"
  by (simp add: attempt_def Let_def span_events span_world
        split: sum.splits option.splits standard_result.splits)

lemma execute_first_event:
  assumes "body_text params = Inr btxt"
  shows "\<exists>rest. trace (execute now d params w) =
      EvFetch (url params) (init_of params btxt) # rest"
proof -
  obtain r1 where "trace (attempt now d params w) = transport_events params @ r1"
    using attempt_trace_prefix [of now d params w] by blast
  moreover obtain r2 where
    "trace (execute now d params w) = trace (attempt now d params w) @ r2"
    using execute_trace_shape [of now d params w] by blast
  ultimately show ?thesis
    using transport_facts(3) [OF assms] by simp
qed








section \<open>The descriptor of a retry\<close>

lemma retry_headers:
  "headers (retry_params params ro) key =
     (if key = ''__proto__'' then None
      else case replacement ro of
        Some m \<Rightarrow>
          (case m key of
             Some v \<Rightarrow> Some v
           | None \<Rightarrow>
               (case headers params key of
                  Some v \<Rightarrow> Some v
                | None \<Rightarrow> [''Accept'' \<mapsto> ''application/json''] key))
      | None \<Rightarrow>
          (case headers params key of
             Some v \<Rightarrow> Some v
           | None \<Rightarrow> [''Accept'' \<mapsto> ''application/json''] key))"
  by (simp add: retry_params_def replacement_def resolveHeaders_def assign_def assignable_def
        map_add_def split: option.splits)

text \<open>
  Claim C9. A call of the retry function runs \<open>execute\<close> on a descriptor that is the
  original one with two fields replaced: the headers are \<open>resolveHeaders\<close> of the original
  headers and the replacement headers, so that a replacement key wins (\<open>resolveHeaders\<close>
  copies every key but \<^verbatim>\<open>__proto__\<close>), and the retry flag is true. The URL, the method,
  the body, the schemas, the fallback, the transport options and the hooks are the
  original ones, and so is the transport request apart from its headers.
\<close>

theorem retry_descriptor:
  "run_hook now d params (CallsRetry ro k) w =
     (let retried = execute now d (retry_params params ro) w
      in emit (EvRetry ro # trace retried)
           (run_hook now d params (k (outcome retried)) (snd (snd retried)))) \<and>
   retry_params params ro =
     params\<lparr>headers := resolveHeaders [Some (headers params), replacement ro],
            isRetry := Some True\<rparr> \<and>
   url (retry_params params ro) = url params \<and>
   http_method (retry_params params ro) = http_method params \<and>
   op (retry_params params ro) = op params \<and>
   name (retry_params params ro) = name params \<and>
   fallback (retry_params params ro) = fallback params \<and>
   body (retry_params params ro) = body params \<and>
   schema (retry_params params ro) = schema params \<and>
   credentials (retry_params params ro) = credentials params \<and>
   cache (retry_params params ro) = cache params \<and>
   errorSchema (retry_params params ro) = errorSchema params \<and>
   errorMessage (retry_params params ro) = errorMessage params \<and>
   onSpan (retry_params params ro) = onSpan params \<and>
   catch (retry_params params ro) = catch params \<and>
   isRetry (retry_params params ro) = Some True \<and>
   headers (retry_params params ro) =
     resolveHeaders [Some (headers params), replacement ro] \<and>
   (replacement ro = Some m \<and> m key = Some v \<and> key \<noteq> ''__proto__'' \<longrightarrow>
      headers (retry_params params ro) key = Some v) \<and>
   (replacement ro = Some m \<and> m key = None \<and> headers params key = Some v \<and>
    key \<noteq> ''__proto__'' \<longrightarrow>
      headers (retry_params params ro) key = Some v) \<and>
   (replacement ro = None \<and> headers params key = Some v \<and> key \<noteq> ''__proto__'' \<longrightarrow>
      headers (retry_params params ro) key = Some v) \<and>
   headers (retry_params params ro) ''__proto__'' = None \<and>
   body_text (retry_params params ro) = body_text params \<and>
   (body_text params = Inr btxt \<longrightarrow>
      hd (fetches (trace (run_hook now d params (CallsRetry ro k) w))) =
        (url params,
         (init_of params btxt)\<lparr>ri_headers :=
            resolveHeaders [Some (headers params), replacement ro]\<rparr>)) \<and>
   (body_text params = Inl t \<longrightarrow>
      fetches (trace (run_hook now d params (CallsRetry ro k) w)) = [])"
proof -
  have fi: "init_of (retry_params params ro) btxt =
      (init_of params btxt)\<lparr>ri_headers :=
         resolveHeaders [Some (headers params), replacement ro]\<rparr>"
    by (simp add: init_of_def retry_params_def replacement_def)
  have hd: "hd (fetches (trace (run_hook now d params (CallsRetry ro k) w))) =
     (url params,
      (init_of params btxt)\<lparr>ri_headers :=
         resolveHeaders [Some (headers params), replacement ro]\<rparr>)"
    if bt: "body_text params = Inr btxt"
  proof -
    have "body_text (retry_params params ro) = Inr btxt"
      using bt by simp
    then obtain rest where "trace (execute now d (retry_params params ro) w) =
        EvFetch (url (retry_params params ro)) (init_of (retry_params params ro) btxt) # rest"
      using execute_first_event [of "retry_params params ro" btxt now d w] by blast
    then show ?thesis
      using fi by (simp add: run_hook_retry Let_def retry_params_def)
  qed
  have nofetch: "fetches (trace (run_hook now d params (CallsRetry ro k) w)) = []"
    if "body_text params = Inl t"
    using run_hook_projections [of now d params "CallsRetry ro k" w] that by blast
  have fields: "retry_params params ro =
     params\<lparr>headers := resolveHeaders [Some (headers params), replacement ro],
            isRetry := Some True\<rparr>"
    by (simp add: retry_params_def replacement_def)
  have frame: "url (retry_params params ro) = url params \<and>
      http_method (retry_params params ro) = http_method params \<and>
      op (retry_params params ro) = op params \<and>
      name (retry_params params ro) = name params \<and>
      fallback (retry_params params ro) = fallback params \<and>
      body (retry_params params ro) = body params \<and>
      schema (retry_params params ro) = schema params \<and>
      credentials (retry_params params ro) = credentials params \<and>
      cache (retry_params params ro) = cache params \<and>
      errorSchema (retry_params params ro) = errorSchema params \<and>
      errorMessage (retry_params params ro) = errorMessage params \<and>
      onSpan (retry_params params ro) = onSpan params \<and>
      catch (retry_params params ro) = catch params \<and>
      isRetry (retry_params params ro) = Some True"
    by (simp add: retry_params_def)
  have merged: "headers (retry_params params ro) =
      resolveHeaders [Some (headers params), replacement ro]"
    by (simp add: retry_params_def replacement_def)
  have wins: "replacement ro = Some m \<and> m key = Some v \<and> key \<noteq> ''__proto__'' \<longrightarrow>
      headers (retry_params params ro) key = Some v"
    using retry_headers [of params ro key] by simp
  have kept: "replacement ro = Some m \<and> m key = None \<and> headers params key = Some v \<and>
      key \<noteq> ''__proto__'' \<longrightarrow> headers (retry_params params ro) key = Some v"
    using retry_headers [of params ro key] by simp
  have kept': "replacement ro = None \<and> headers params key = Some v \<and> key \<noteq> ''__proto__'' \<longrightarrow>
      headers (retry_params params ro) key = Some v"
    using retry_headers [of params ro key] by simp
  have proto: "headers (retry_params params ro) ''__proto__'' = None"
    using retry_headers [of params ro "''__proto__''"] by simp
  have bt: "body_text (retry_params params ro) = body_text params"
    by simp
  show ?thesis
    using run_hook_retry [of now d params ro k w] fields frame merged wins kept kept' proto
      bt hd nofetch
    by blast
qed

theorem retry_descriptor_witness:
  "replacement new_token = Some [''Authorization'' \<mapsto> ''Bearer new-token''] \<and>
   headers test_params ''Authorization'' = Some ''Bearer old'' \<and>
   headers (retry_params test_params new_token) ''Authorization'' = Some ''Bearer new-token'' \<and>
   url (retry_params test_params new_token) = ''/api/test'' \<and>
   isRetry (retry_params test_params new_token) = Some True \<and>
   body_text test_params = Inr None \<and>
   fst (hd (fetches (trace (run_hook clock (test_deps [Inr unauthorized, Inr ok_users]
          (Some refresh)) test_params (CallsRetry new_token Returns) (1, []))))) = ''/api/test''"
proof -
  have r: "replacement new_token = Some [''Authorization'' \<mapsto> ''Bearer new-token'']"
    by (simp add: replacement_def new_token_def)
  have m: "[''Authorization'' \<mapsto> ''Bearer new-token''] ''Authorization'' =
      Some ''Bearer new-token''" "''Authorization'' \<noteq> ''__proto__''"
    by simp_all
  have o: "headers test_params ''Authorization'' = Some ''Bearer old''"
      "url test_params = ''/api/test''"
    by (simp_all add: test_params_def)
  have bt: "body_text test_params = Inr None"
    by (simp add: body_text_def test_params_def)
  note t = retry_descriptor [where params = test_params and ro = new_token
        and m = "[''Authorization'' \<mapsto> ''Bearer new-token'']" and key = "''Authorization''"
        and v = "''Bearer new-token''" and now = clock
        and d = "test_deps [Inr unauthorized, Inr ok_users] (Some refresh)"
        and k = Returns and w = "(1, [])" and btxt = None]
  have c1: "headers (retry_params test_params new_token) ''Authorization'' =
      Some ''Bearer new-token''"
    using r m t by blast
  have c2: "url (retry_params test_params new_token) = url test_params"
      "isRetry (retry_params test_params new_token) = Some True"
    using t by blast+
  have c3: "fst (hd (fetches (trace (run_hook clock
      (test_deps [Inr unauthorized, Inr ok_users] (Some refresh)) test_params
      (CallsRetry new_token Returns) (1, []))))) = url test_params"
    using t bt by (metis fst_conv)
  show ?thesis
    using r o bt c1 c2 c3 by simp
qed

section \<open>The body of a schema-less success\<close>

lemma attempt_with_body:
  assumes "body_text params = Inr btxt"
    and "fst (d_fetch d (url params) (init_of params btxt) w) = Inr response"
    and "r_ok response" and "schema params = None"
  shows "attempt now (d\<lparr>d_fetch := with_body j (d_fetch d)\<rparr>) params w =
      attempt now d params w"
  using assms
  by (simp add: attempt_def Let_def with_body_def span_def transport_result_def
        after_transport_def)

text \<open>
  Claim C10. When the response is successful and the descriptor has no response schema,
  \<open>execute\<close> resolves with \<^verbatim>\<open>undefined\<close> and the body-parse operation of the response is
  never invoked: the run is the transport call followed by the event, and it is the same
  run whatever the body-parse operation would have produced, a failure included.
\<close>

theorem no_body_read:
  "body_text params = Inr btxt \<and>
   fst (d_fetch d (url params) (init_of params btxt) w) = Inr response \<and> r_ok response \<and>
   schema params = None \<longrightarrow>
     outcome (execute now d params w) = Inr JUndefined \<and>
     body_reads (trace (execute now d params w)) = 0 \<and>
     EvJson \<notin> set (trace (execute now d params w)) \<and>
     execute now (d\<lparr>d_fetch := with_body j (d_fetch d)\<rparr>) params w = execute now d params w"
proof -
  have "outcome (execute now d params w) = Inr JUndefined \<and>
     body_reads (trace (execute now d params w)) = 0 \<and>
     EvJson \<notin> set (trace (execute now d params w)) \<and>
     execute now (d\<lparr>d_fetch := with_body j (d_fetch d)\<rparr>) params w = execute now d params w"
    if bt: "body_text params = Inr btxt"
      and a: "fst (d_fetch d (url params) (init_of params btxt) w) = Inr response"
        "r_ok response" "schema params = None"
  proof -
    have tr: "transport_result d params w = Inr response"
      using transport_facts(1) [OF bt, of d w] a(1) by simp
    have o: "outcome (attempt now d params w) = Completed JUndefined"
      using attempt_success_no_schema(1) [OF tr a(2,3)] .
    have t: "trace (execute now d params w) =
        EvFetch (url params) (init_of params btxt) #
          (case sink_of d params of
             None \<Rightarrow> []
           | Some sink \<Rightarrow>
               [EvSpan (span_event_of now params w (after_transport d params w)
                  (Some (r_status response)) True None)])"
      using attempt_success_no_schema(2) [OF tr a(2,3), of now] o transport_facts(3) [OF bt]
      by (simp add: execute_completed)
    have e: "execute now (d\<lparr>d_fetch := with_body j (d_fetch d)\<rparr>) params w =
        execute now d params w"
      using attempt_with_body [OF bt a, of now j] o
      by (simp add: execute_completed)
    show ?thesis
      using o t e by (simp add: execute_completed split: option.splits)
  qed
  then show ?thesis by blast
qed

theorem no_body_read_witness:
  "body_text test_params = Inr None \<and>
   fst (d_fetch (test_deps [Inr ok_users] None) (url test_params)
          (init_of test_params None) (0, [])) = Inr ok_users \<and>
   r_ok ok_users \<and> schema test_params = None \<and>
   outcome (execute clock (test_deps [Inr ok_users] None) test_params (0, [])) =
     Inr JUndefined \<and>
   body_reads (trace (execute clock (test_deps [Inr ok_users] None) test_params (0, []))) = 0 \<and>
   execute clock ((test_deps [Inr ok_users] None)
       \<lparr>d_fetch := with_body None (d_fetch (test_deps [Inr ok_users] None))\<rparr>) test_params
       (0, []) =
     execute clock (test_deps [Inr ok_users] None) test_params (0, [])"
proof -
  let ?d = "test_deps [Inr ok_users] None"
  have bt: "body_text test_params = Inr None"
    by (simp add: body_text_def test_params_def)
  have f: "fst (d_fetch ?d (url test_params) (init_of test_params None) (0, [])) =
      Inr ok_users"
    by (simp add: test_deps_def scripted_def)
  have ok: "r_ok ok_users"
    by (simp add: ok_users_def)
  have s: "schema test_params = None"
    by (simp add: test_params_def)
  show ?thesis
    using bt f ok s
      no_body_read [where d = ?d and params = test_params and w = "(0, [])" and now = clock
        and response = ok_users and j = None and btxt = None]
    by blast
qed

section \<open>A scenario of the repository's tests\<close>

text \<open>
  The first transport call is answered with status 401 and the hook retries with a new
  token; the retried call is answered with status 200 and the body \<^verbatim>\<open>{"users":[]}\<close>.
  The result is that body, the transport function is called twice, the second call
  carries the new token next to the default \<^verbatim>\<open>Accept\<close> header, and the sink has been
  given the events of both attempts.
\<close>

lemma refresh_scenario:
  "case execute clock (test_deps [Inr unauthorized, Inr ok_users] (Some refresh))
      (test_params\<lparr>schema := Some always_valid\<rparr>) (0, []) of
     (out, evs, w') \<Rightarrow>
       out = Inr (JObj [(''users'', JArr [])]) \<and>
       length (fetches evs) = 2 \<and>
       ri_headers (snd (fetches evs ! 1)) ''Authorization'' = Some ''Bearer new-token'' \<and>
       ri_headers (snd (fetches evs ! 1)) ''Accept'' = Some ''application/json'' \<and>
       map ev_status (spans evs) = [Some 401, Some 200] \<and>
       fst w' = 2 \<and> map ev_ok (snd w') = [False, True]"
  by (simp add: run_simps refresh_def new_token_def always_valid_def resolveHeaders_def
        assign_def assignable_def map_add_def)

end
